theory Spec2Isabelle
  imports Main
begin

section \<open>JavaScript values\<close>

text \<open>
  Strings are \<open>char list\<close>s, so the model covers the code points up to U+00FF. Of these,
  \<open>String.prototype.trim\<close> strips TAB, LF, VT, FF, CR, SPACE and NBSP from both ends.
\<close>

definition js_whitespace :: "char \<Rightarrow> bool" where
  "js_whitespace c \<longleftrightarrow> of_char c \<in> {9::nat, 10, 11, 12, 13, 32, 160}"

definition trim :: "string \<Rightarrow> string" where
  "trim s = rev (dropWhile js_whitespace (rev (dropWhile js_whitespace s)))"

text \<open>
  A property of a response object is absent (\<open>None\<close>, read as \<open>undefined\<close>) or a string.
  In a condition the empty string counts as false, like \<open>undefined\<close>; in a template
  literal \<open>undefined\<close> is printed as the word.
\<close>

fun truthy :: "string option \<Rightarrow> bool" where
  "truthy None = False"
| "truthy (Some t) = (t \<noteq> [])"

fun js_str :: "string option \<Rightarrow> string" where
  "js_str None = ''undefined''"
| "js_str (Some t) = t"

text \<open>The text \<open>t\<close> between two double quotes, as the templates of the activity log write it.\<close>

definition quoted :: "string \<Rightarrow> string" where
  "quoted t = CHR 0x22 # t @ [CHR 0x22]"

text \<open>
  The value of a textarea, as scripts write and read it, has its line breaks normalised: each
  CR LF pair and each remaining CR becomes LF.
\<close>

fun normalize_newlines :: "string \<Rightarrow> string" where
  "normalize_newlines [] = []"
| "normalize_newlines [c] = (if c = CHR 0x0D then [CHR 0x0A] else [c])"
| "normalize_newlines (c # d # cs) =
     (if c = CHR 0x0D
      then CHR 0x0A #
             (if d = CHR 0x0A then normalize_newlines cs else normalize_newlines (d # cs))
      else c # normalize_newlines (d # cs))"

text \<open>What an \<open>await\<close> resumes with: the promise rejected with an error (its message), or a value.\<close>

datatype 'a awaited = Threw string | Returned 'a

text \<open>
  The backend's replies. The prompt endpoint answers \<open>{ message }\<close> or \<open>{ error }\<close>; the speech
  endpoint answers \<open>{ text, prompt_response?: { message }, error? }\<close>.
\<close>

record agent_reply =
  reply_message :: "string option"
  reply_error :: "string option"

record speech_reply =
  resp_text :: "string option"
  resp_prompt_response :: "agent_reply option"
  resp_error :: "string option"


section \<open>Strings assigned to innerHTML\<close>

text \<open>
  The page interpolates its data into templates and assigns the result to \<open>innerHTML\<close>, so
  the data is read as HTML. The model follows the parser on a fragment of HTML: runs of text,
  and \<open>span\<close> elements written as \<open><span class="c">text</span>\<close> with a class of lower-case
  letters and hyphens. Text is any character but \<open><\<close>, \<open>&\<close>, CR and NUL, which the parser
  does not take as they are. What is outside the fragment is kept as source, unparsed.
\<close>

datatype inline = Txt string | Span string string

datatype content = Parsed "inline list" | Unparsed string

definition text_char :: "char \<Rightarrow> bool" where
  "text_char c \<longleftrightarrow> c \<notin> set [CHR ''<'', CHR ''&'', CHR 0x0D, CHR 0x00]"

definition class_char :: "char \<Rightarrow> bool" where
  "class_char c \<longleftrightarrow> c \<in> set ''abcdefghijklmnopqrstuvwxyz-''"

definition plain :: "string \<Rightarrow> bool" where
  "plain s \<longleftrightarrow> list_all text_char s"

fun strip_prefix :: "string \<Rightarrow> string \<Rightarrow> string option" where
  "strip_prefix [] s = Some s"
| "strip_prefix (p # ps) [] = None"
| "strip_prefix (p # ps) (c # cs) = (if p = c then strip_prefix ps cs else None)"

function parse_html :: "string \<Rightarrow> inline list option" where
  "parse_html s =
     (if s = [] then Some []
      else if text_char (hd s) then
        map_option ((#) (Txt (takeWhile text_char s))) (parse_html (dropWhile text_char s))
      else
        (case strip_prefix (''<span class='' @ [CHR 0x22]) s of
           None \<Rightarrow> None
         | Some r1 \<Rightarrow>
             if takeWhile class_char r1 = [] then None
             else
               (case strip_prefix (CHR 0x22 # ''>'') (dropWhile class_char r1) of
                  None \<Rightarrow> None
                | Some r2 \<Rightarrow>
                   (case strip_prefix ''</span>'' (dropWhile text_char r2) of
                      None \<Rightarrow> None
                    | Some r3 \<Rightarrow>
                        map_option
                          ((#) (Span (takeWhile class_char r1) (takeWhile text_char r2)))
                          (parse_html r3)))))"
  by pat_completeness auto
termination
proof (relation "measure length", goal_cases)
  case 1
  then show ?case by simp
next
  case (2 s)
  then obtain a list where s: "s = a # list" and a: "text_char a"
    by (cases s) auto
  have "length (dropWhile text_char list) \<le> length list"
    by (rule length_dropWhile_le)
  with s a show ?case by simp
next
  case (3 s r1 r2 r3)
  have strip_prefix_length: "length s = length p + length r"
    if "strip_prefix p s = Some r" for p s r
    using that by (induction p s arbitrary: r rule: strip_prefix.induct) (auto split: if_splits)
  from 3(3) have a: "length s = length (''<span class='' @ [CHR 0x22]) + length r1"
    by (rule strip_prefix_length)
  from 3(5) have b: "length (dropWhile class_char r1) = length (CHR 0x22 # ''>'') + length r2"
    by (rule strip_prefix_length)
  from 3(6) have c: "length (dropWhile text_char r2) = length ''</span>'' + length r3"
    by (rule strip_prefix_length)
  have "length (dropWhile class_char r1) \<le> length r1"
    "length (dropWhile text_char r2) \<le> length r2"
    by (rule length_dropWhile_le)+
  with a b c show ?case by simp
qed

declare parse_html.simps [simp del]

definition innerHTML :: "string \<Rightarrow> content" where
  "innerHTML src = (case parse_html src of Some ns \<Rightarrow> Parsed ns | None \<Rightarrow> Unparsed src)"

text \<open>
  \<open>querySelector('.empty-state')\<close> followed by \<open>remove()\<close>, inside parsed content: the first
  \<open>span\<close> of that class is taken out (\<open>None\<close>: there is none).
\<close>

fun remove_span :: "inline list \<Rightarrow> inline list option" where
  "remove_span [] = None"
| "remove_span (Txt t # ns) = map_option ((#) (Txt t)) (remove_span ns)"
| "remove_span (Span c b # ns) =
     (if c = ''empty-state'' then Some ns else map_option ((#) (Span c b)) (remove_span ns))"


section \<open>The page and the platform\<close>

text \<open>
  The content of the response region: one element. The placeholder and the loading message
  are fixed texts; the agent's answer and the error hold interpolated data.
\<close>

datatype html =
    P_empty_state string
  | Div_loading string
  | Div_agent_response content
  | P_error content

text \<open>
  The children of the activity log, top first: the placeholder paragraph of class
  \<open>empty-state\<close>, or an activity item with the content of its time and of its description.
\<close>

datatype log_child = EmptyState | ActivityItem content content

text \<open>A media stream is the list of its tracks; a track is live until it is stopped.\<close>

datatype readyState = Live | Ended

type_synonym mediaStream = "readyState list"

datatype recordingState = Inactive | Recording

record recorder =
  rec_state :: recordingState
  rec_stream :: nat

type_synonym blob = "nat list"

text \<open>
  The state of the renderer: the fields of the \<open>VoiceInput\<close> object, the elements of the page
  it and \<open>sendPrompt\<close> write to, the objects the platform has handed out (streams, recorders and
  audio contexts, referred to by their index), and the asynchronous work that has been started
  and has not resumed yet. \<open>promptInput\<close> is the value of the textarea as scripts read it.
  \<open>activityLog\<close> always lists the items in their order; while \<open>logExact\<close> holds it is the log
  exactly, afterwards the model no longer follows which elements of class \<open>empty-state\<close> are
  still there (a search for one has met unparsed content).
\<close>

record app =
  isRecording :: bool
  isProcessing :: bool
  audioContext :: "nat option"
  mediaRecorder :: "nat option"
  audioChunks :: "blob list"
  buttonRecording :: bool
  buttonProcessing :: bool
  buttonText :: string
  visualizerDisplay :: string
  visualizerBars :: nat
  promptInput :: string
  responseContainer :: html
  activityLog :: "log_child list"
  logExact :: bool
  console :: "(string \<times> string) list"
  alerts :: "string list"
  streams :: "mediaStream list"
  recorders :: "recorder list"
  audioContexts :: nat
  pendingGetUserMedia :: nat
  stopEventsQueued :: "nat list"
  uploadsInFlight :: "blob list"
  promptsInFlight :: "string list"

text \<open>The page as loaded, after the constructor of \<open>VoiceInput\<close> has run.\<close>

definition initial :: app where
  "initial = \<lparr>
     isRecording = False, isProcessing = False, audioContext = None, mediaRecorder = None,
     audioChunks = [], buttonRecording = False, buttonProcessing = False,
     buttonText = ''Speak'', visualizerDisplay = ''none'', visualizerBars = 0,
     promptInput = [],
     responseContainer = P_empty_state ''Agent responses will appear here'',
     activityLog = [EmptyState], logExact = True, console = [], alerts = [],
     streams = [], recorders = [], audioContexts = 0,
     pendingGetUserMedia = 0, stopEventsQueued = [], uploadsInFlight = [],
     promptsInFlight = [] \<rparr>"

text \<open>Removing the element at an index, for a request that has settled.\<close>

definition remove_nth :: "nat \<Rightarrow> 'a list \<Rightarrow> 'a list" where
  "remove_nth i xs = take i xs @ drop (Suc i) xs"


section \<open>The activity log\<close>

text \<open>
  The search for the first element of class \<open>empty-state\<close> in the log, in document order,
  and its removal: the element is the placeholder, or a \<open>span\<close> inside an item (in its time,
  then in its description). The search is \<open>Unknown\<close> when it meets unparsed content first.
\<close>

datatype 'a search = Found 'a | NotFound | Unknown

fun remove_in :: "content \<Rightarrow> content search" where
  "remove_in (Parsed ns) =
     (case remove_span ns of Some ns' \<Rightarrow> Found (Parsed ns') | None \<Rightarrow> NotFound)"
| "remove_in (Unparsed src) = Unknown"

fun remove_first :: "log_child list \<Rightarrow> log_child list search" where
  "remove_first [] = NotFound"
| "remove_first (EmptyState # cs) = Found cs"
| "remove_first (ActivityItem t d # cs) =
     (case remove_in t of
        Found t' \<Rightarrow> Found (ActivityItem t' d # cs)
      | Unknown \<Rightarrow> Unknown
      | NotFound \<Rightarrow>
         (case remove_in d of
            Found d' \<Rightarrow> Found (ActivityItem t d' # cs)
          | Unknown \<Rightarrow> Unknown
          | NotFound \<Rightarrow>
             (case remove_first cs of
                Found cs' \<Rightarrow> Found (ActivityItem t d # cs')
              | NotFound \<Rightarrow> NotFound
              | Unknown \<Rightarrow> Unknown)))"

text \<open>
  \<open>addActivityItem(description)\<close>: a new item element gets the template, with the time
  string and the description interpolated, as its \<open>innerHTML\<close> and goes on top of the log;
  then the first element of class \<open>empty-state\<close> in the log, if there is one, is removed. The
  first argument is the time string the clock gives at the call.
\<close>

definition addActivityItem :: "string \<Rightarrow> string \<Rightarrow> app \<Rightarrow> app" where
  "addActivityItem timeString description s =
     (let cs = ActivityItem (innerHTML timeString) (innerHTML description) # activityLog s
      in if \<not> logExact s then s\<lparr>activityLog := cs\<rparr>
         else (case remove_first cs of
                 Found cs' \<Rightarrow> s\<lparr>activityLog := cs'\<rparr>
               | NotFound \<Rightarrow> s\<lparr>activityLog := cs\<rparr>
               | Unknown \<Rightarrow> s\<lparr>activityLog := cs, logExact := False\<rparr>))"

text \<open>The activity entries of the log, top first.\<close>

fun is_entry :: "log_child \<Rightarrow> bool" where
  "is_entry EmptyState = False"
| "is_entry (ActivityItem t d) = True"

definition entries :: "app \<Rightarrow> log_child list" where
  "entries s = filter is_entry (activityLog s)"


section \<open>Prompt submission\<close>

text \<open>
  \<open>sendPrompt\<close> up to its \<open>await\<close>: a blank input returns at once; otherwise the loading state
  is shown and the request leaves with the trimmed text.
\<close>

definition sendPrompt :: "app \<Rightarrow> app" where
  "sendPrompt s =
     (let prompt = trim (promptInput s) in
      if prompt = [] then s
      else s\<lparr>responseContainer := Div_loading ''Processing your request...'',
             promptsInFlight := promptsInFlight s @ [prompt]\<rparr>)"

text \<open>The message of the TypeError that reading \<open>response.error\<close> off \<open>null\<close> throws (shortened).\<close>

definition null_property_error :: string where
  "null_property_error = ''Cannot read properties of null''"

text \<open>
  \<open>sendPrompt\<close> from its \<open>await\<close> on, for the call that captured \<open>prompt\<close>; \<open>t1\<close> and \<open>t2\<close> are the
  clock readings of the two log entries.
\<close>

definition sendPrompt_resume ::
    "string \<Rightarrow> agent_reply option awaited \<Rightarrow> string \<Rightarrow> string \<Rightarrow> app \<Rightarrow> app" where
  "sendPrompt_resume prompt result t1 t2 s =
     (case result of
        Threw m \<Rightarrow> s\<lparr>responseContainer := P_error (innerHTML (''Error: '' @ m))\<rparr>
      | Returned None \<Rightarrow>
          s\<lparr>responseContainer := P_error (innerHTML (''Error: '' @ null_property_error))\<rparr>
      | Returned (Some response) \<Rightarrow>
          if truthy (reply_error response)
          then s\<lparr>responseContainer :=
                   P_error (innerHTML (''Error: '' @ js_str (reply_error response)))\<rparr>
          else
            (addActivityItem t2 (''Agent: '' @ quoted (js_str (reply_message response)))
              (addActivityItem t1 (''Prompt: '' @ quoted prompt)
                (s\<lparr>responseContainer :=
                     Div_agent_response (innerHTML (js_str (reply_message response)))\<rparr>)))
            \<lparr>promptInput := []\<rparr>)"

text \<open>The request at index \<open>i\<close> of those in flight settles and its call resumes.\<close>

definition prompt_settles ::
    "nat \<Rightarrow> agent_reply option awaited \<Rightarrow> string \<Rightarrow> string \<Rightarrow> app \<Rightarrow> app" where
  "prompt_settles i result t1 t2 s =
     (if i < length (promptsInFlight s)
      then sendPrompt_resume (promptsInFlight s ! i) result t1 t2
             (s\<lparr>promptsInFlight := remove_nth i (promptsInFlight s)\<rparr>)
      else s)"


section \<open>Voice capture (renderer.js)\<close>

text \<open>
  What the platform does with the calls \<open>startRecording\<close> makes once the stream is there:
  each may throw (\<open>Some\<close> message) or succeed (\<open>None\<close>).
\<close>

record platform =
  newAudioContext :: "string option"
  createSource :: "string option"
  newMediaRecorder :: "string option"
  recorderStart :: "string option"

datatype getUserMedia_result = Rejected string | Granted mediaStream

text \<open>\<open>startVisualization\<close>: twenty bars; their heights follow the analyser and are not modelled.\<close>

definition startVisualization :: "app \<Rightarrow> app" where
  "startVisualization s = (if \<not> isRecording s then s else s\<lparr>visualizerBars := 20\<rparr>)"

text \<open>\<open>startRecording\<close> up to its \<open>await\<close>: the request for the microphone.\<close>

definition startRecording :: "app \<Rightarrow> app" where
  "startRecording s = s\<lparr>pendingGetUserMedia := Suc (pendingGetUserMedia s)\<rparr>"

text \<open>The \<open>catch\<close> block of \<open>startRecording\<close>.\<close>

definition startRecording_catch :: "string \<Rightarrow> app \<Rightarrow> app" where
  "startRecording_catch e s =
     s\<lparr>console := console s @ [(''Error starting recording:'', e)],
       alerts := alerts s @ [''Could not access microphone. Please check permissions.'']\<rparr>"

text \<open>
  \<open>startRecording\<close> from its \<open>await\<close> on. A granted stream is held by the page from here;
  what the statements before a throw have assigned stays assigned.
\<close>

definition startRecording_resume :: "getUserMedia_result \<Rightarrow> platform \<Rightarrow> app \<Rightarrow> app" where
  "startRecording_resume r env s =
     (case r of
        Rejected e \<Rightarrow> startRecording_catch e s
      | Granted stream \<Rightarrow>
          let sid = length (streams s);
              s1 = s\<lparr>streams := streams s @ [stream]\<rparr>
          in (case newAudioContext env of
                Some e \<Rightarrow> startRecording_catch e s1
              | None \<Rightarrow>
                  let s2 = s1\<lparr>audioContext := Some (audioContexts s1),
                              audioContexts := Suc (audioContexts s1)\<rparr>
                  in (case createSource env of
                        Some e \<Rightarrow> startRecording_catch e s2
                      | None \<Rightarrow>
                         (case newMediaRecorder env of
                            Some e \<Rightarrow> startRecording_catch e s2
                          | None \<Rightarrow>
                              let rid = length (recorders s2);
                                  s3 = s2\<lparr>recorders := recorders s2 @
                                             [\<lparr>rec_state = Inactive, rec_stream = sid\<rparr>],
                                          mediaRecorder := Some rid,
                                          audioChunks := []\<rparr>
                              in (case recorderStart env of
                                    Some e \<Rightarrow> startRecording_catch e s3
                                  | None \<Rightarrow>
                                      startVisualization
                                        (s3\<lparr>recorders := (recorders s3)
                                               [rid := \<lparr>rec_state = Recording, rec_stream = sid\<rparr>],
                                            isRecording := True,
                                            buttonRecording := True,
                                            buttonText := ''Listening...'',
                                            visualizerDisplay := ''flex''\<rparr>))))))"

text \<open>A pending request for the microphone settles and its call resumes.\<close>

definition getUserMedia_settles :: "getUserMedia_result \<Rightarrow> platform \<Rightarrow> app \<Rightarrow> app" where
  "getUserMedia_settles r env s =
     (if pendingGetUserMedia s = 0 then s
      else startRecording_resume r env (s\<lparr>pendingGetUserMedia := pendingGetUserMedia s - 1\<rparr>))"

text \<open>The recorder a reference points to, and stopping every track of a stream.\<close>

definition recorder_at :: "app \<Rightarrow> nat \<Rightarrow> recorder option" where
  "recorder_at s r = (if r < length (recorders s) then Some (recorders s ! r) else None)"

definition stop_tracks :: "nat \<Rightarrow> mediaStream list \<Rightarrow> mediaStream list" where
  "stop_tracks k ss = (if k < length ss then ss[k := map (\<lambda>t. Ended) (ss ! k)] else ss)"

text \<open>
  \<open>stopRecording\<close>: nothing without a recorder or with an inactive one. Otherwise the recorder
  is stopped (it becomes inactive and its stop event is queued), the flag and the button are
  updated and the tracks of the recorder's stream are stopped.
\<close>

definition stopRecording :: "app \<Rightarrow> app" where
  "stopRecording s =
     (case mediaRecorder s of
        None \<Rightarrow> s
      | Some r \<Rightarrow>
         (case recorder_at s r of
            None \<Rightarrow> s
          | Some rc \<Rightarrow>
              if rec_state rc = Inactive then s
              else s\<lparr>recorders := (recorders s)[r := rc\<lparr>rec_state := Inactive\<rparr>],
                     stopEventsQueued := stopEventsQueued s @ [r],
                     isRecording := False,
                     buttonRecording := False,
                     buttonProcessing := True,
                     buttonText := ''Processing...'',
                     streams := stop_tracks (rec_stream rc) (streams s)\<rparr>))"

definition toggleRecording :: "app \<Rightarrow> app" where
  "toggleRecording s =
     (if isProcessing s then s
      else if \<not> isRecording s then startRecording s
      else stopRecording s)"

text \<open>\<open>processAudio\<close> up to its \<open>await\<close>: the flag is set and the upload leaves.\<close>

definition processAudio :: "blob \<Rightarrow> app \<Rightarrow> app" where
  "processAudio audioBlob s =
     s\<lparr>isProcessing := True, uploadsInFlight := uploadsInFlight s @ [audioBlob]\<rparr>"

text \<open>The \<open>finally\<close> block of \<open>processAudio\<close>.\<close>

definition processAudio_finally :: "app \<Rightarrow> app" where
  "processAudio_finally s =
     s\<lparr>isProcessing := False, buttonProcessing := False, buttonText := ''Speak'',
       visualizerDisplay := ''none'', visualizerBars := 0\<rparr>"

text \<open>
  \<open>processAudio\<close> from its \<open>await\<close> on; \<open>t1\<close> and \<open>t2\<close> are the clock readings of the first and
  the second log entry, where they are written. The text goes into the textarea through its
  value, the agent's message and the error into the response region through \<open>innerHTML\<close>.
\<close>

definition processAudio_resume ::
    "speech_reply option awaited \<Rightarrow> string \<Rightarrow> string \<Rightarrow> app \<Rightarrow> app" where
  "processAudio_resume result t1 t2 s =
     processAudio_finally
       (case result of
          Threw m \<Rightarrow>
            s\<lparr>console := console s @ [(''Error processing audio:'', m)],
              responseContainer := P_error (innerHTML (''Error processing audio: '' @ m))\<rparr>
        | Returned None \<Rightarrow> s
        | Returned (Some response) \<Rightarrow>
            if truthy (resp_text response) then
              (let s1 = s\<lparr>promptInput := normalize_newlines (js_str (resp_text response))\<rparr> in
               case resp_prompt_response response of
                 Some pr \<Rightarrow>
                   addActivityItem t2 (''Agent: '' @ quoted (js_str (reply_message pr)))
                     (addActivityItem t1
                        (''Voice prompt: '' @ quoted (js_str (resp_text response)))
                        (s1\<lparr>responseContainer :=
                              Div_agent_response (innerHTML (js_str (reply_message pr)))\<rparr>))
               | None \<Rightarrow>
                   addActivityItem t1
                     (''Transcribed: '' @ quoted (js_str (resp_text response))) s1)
            else if truthy (resp_error response) then
              s\<lparr>console := console s @
                   [(''Speech recognition error:'', js_str (resp_error response))],
                responseContainer :=
                  P_error (innerHTML (''Error: '' @ js_str (resp_error response)))\<rparr>
            else s)"

text \<open>The handlers of the recorder's events, and the events themselves.\<close>

definition mediaRecorder_ondataavailable :: "blob \<Rightarrow> app \<Rightarrow> app" where
  "mediaRecorder_ondataavailable d s = s\<lparr>audioChunks := audioChunks s @ [d]\<rparr>"

definition mediaRecorder_onstop :: "app \<Rightarrow> app" where
  "mediaRecorder_onstop s = processAudio (concat (audioChunks s)) s"

text \<open>A queued stop is delivered: the recorded data arrives, then the stop event.\<close>

definition stop_event_fires :: "blob \<Rightarrow> app \<Rightarrow> app" where
  "stop_event_fires d s =
     (case stopEventsQueued s of
        [] \<Rightarrow> s
      | r # rs \<Rightarrow>
          mediaRecorder_onstop (mediaRecorder_ondataavailable d (s\<lparr>stopEventsQueued := rs\<rparr>)))"

text \<open>The upload at index \<open>i\<close> of those in flight settles and its call resumes.\<close>

definition upload_settles ::
    "nat \<Rightarrow> speech_reply option awaited \<Rightarrow> string \<Rightarrow> string \<Rightarrow> app \<Rightarrow> app" where
  "upload_settles i result t1 t2 s =
     (if i < length (uploadsInFlight s)
      then processAudio_resume result t1 t2
             (s\<lparr>uploadsInFlight := remove_nth i (uploadsInFlight s)\<rparr>)
      else s)"


section \<open>Voice capture (VoiceInput.js)\<close>

text \<open>
  The React component: its state variables, the calls it has made to \<open>onTranscription\<close>, its
  console and its uploads in flight.
\<close>

record component =
  c_isRecording :: bool
  c_isProcessing :: bool
  c_audioBlob :: "blob option"
  c_transcriptions :: "string list"
  c_console :: "(string \<times> string) list"
  c_uploadsInFlight :: "blob list"

definition toggleRecording_c :: "component \<Rightarrow> component" where
  "toggleRecording_c c =
     (if c_isProcessing c then c else c\<lparr>c_isRecording := \<not> c_isRecording c\<rparr>)"

text \<open>\<open>onStop\<close> up to the \<open>await\<close> inside \<open>processAudio\<close>.\<close>

definition onStop_c :: "blob \<Rightarrow> component \<Rightarrow> component" where
  "onStop_c b c =
     c\<lparr>c_audioBlob := Some b, c_isProcessing := True,
       c_uploadsInFlight := c_uploadsInFlight c @ [b]\<rparr>"

text \<open>\<open>processAudio\<close> from its \<open>await\<close> on: the new state and the error it rethrows, if any.\<close>

definition processAudio_c_resume ::
    "speech_reply option awaited \<Rightarrow> component \<Rightarrow> component \<times> string option" where
  "processAudio_c_resume result c =
     (case result of
        Threw m \<Rightarrow>
          (c\<lparr>c_console := c_console c @ [(''Error sending audio to backend:'', m)]\<rparr>, Some m)
      | Returned None \<Rightarrow> (c, None)
      | Returned (Some response) \<Rightarrow>
          if truthy (resp_text response) then
            (c\<lparr>c_transcriptions := c_transcriptions c @ [js_str (resp_text response)]\<rparr>, None)
          else if truthy (resp_error response) then
            (c\<lparr>c_console := c_console c @
                 [(''Speech recognition error:'', js_str (resp_error response))]\<rparr>, None)
          else (c, None))"

text \<open>\<open>onStop\<close> once \<open>processAudio\<close> has returned or thrown: \<open>catch\<close>, then \<open>finally\<close>.\<close>

definition onStop_c_resume :: "speech_reply option awaited \<Rightarrow> component \<Rightarrow> component" where
  "onStop_c_resume result c =
     (case processAudio_c_resume result c of
        (c1, Some m) \<Rightarrow>
          c1\<lparr>c_console := c_console c1 @ [(''Error processing audio:'', m)],
             c_isProcessing := False\<rparr>
      | (c1, None) \<Rightarrow> c1\<lparr>c_isProcessing := False\<rparr>)"


section \<open>Observations\<close>

text \<open>
  Whether the await of \<open>sendPrompt\<close> resumed with a failure: a thrown error, or a reply whose
  \<open>error\<close> the code takes as set (reading it off \<open>null\<close> throws as well).
\<close>

fun submission_failed :: "agent_reply option awaited \<Rightarrow> bool" where
  "submission_failed (Threw m) = True"
| "submission_failed (Returned None) = True"
| "submission_failed (Returned (Some response)) = truthy (reply_error response)"

text \<open>
  What the \<open>finally\<close> block of \<open>processAudio\<close> leaves: the flag cleared, the button back to
  \<open>Speak\<close>, the visualizer hidden and emptied.
\<close>

definition capture_reset :: "app \<Rightarrow> bool" where
  "capture_reset s \<longleftrightarrow>
     \<not> isProcessing s \<and> \<not> buttonProcessing s \<and> buttonText s = ''Speak'' \<and>
     visualizerDisplay s = ''none'' \<and> visualizerBars s = 0"

text \<open>The number of recorders that are recording.\<close>

definition active_recorders :: "app \<Rightarrow> nat" where
  "active_recorders s = length (filter (\<lambda>r. rec_state r = Recording) (recorders s))"

text \<open>The content that shows a string as it is: one text node, or nothing for the empty string.\<close>

definition as_text :: "string \<Rightarrow> content" where
  "as_text s = Parsed (if s = [] then [] else [Txt s])"

text \<open>
  A log the model follows exactly and in which no item holds an element of class
  \<open>empty-state\<close>: every content is parsed and the search inside it finds nothing.
\<close>

fun clean_content :: "content \<Rightarrow> bool" where
  "clean_content (Parsed ns) = (remove_span ns = None)"
| "clean_content (Unparsed src) = False"

fun clean_child :: "log_child \<Rightarrow> bool" where
  "clean_child EmptyState = True"
| "clean_child (ActivityItem t d) = (clean_content t \<and> clean_content d)"

definition clean_log :: "app \<Rightarrow> bool" where
  "clean_log s \<longleftrightarrow> logExact s \<and> list_all clean_child (activityLog s)"


section \<open>Runs of the page\<close>

text \<open>
  States the page reaches, used to instantiate the theorems below. First a platform on which
  no call throws, and replies of the speech endpoint.
\<close>

definition no_fault :: platform where
  "no_fault = \<lparr>newAudioContext = None, createSource = None,
                newMediaRecorder = None, recorderStart = None\<rparr>"

definition text_only_reply :: speech_reply where
  "text_only_reply = \<lparr>resp_text = Some ''move meeting to Friday'',
                       resp_prompt_response = None, resp_error = None\<rparr>"



definition mixed_reply :: speech_reply where
  "mixed_reply = \<lparr>resp_text = Some ''hello'', resp_prompt_response = None,
                   resp_error = Some ''unintelligible audio''\<rparr>"

definition error_reply :: speech_reply where
  "error_reply = \<lparr>resp_text = None, resp_prompt_response = None,
                   resp_error = Some ''unintelligible audio''\<rparr>"


text \<open>
  The page while recording (one click, microphone granted), after the click that stops the
  recording, while the upload is in flight, and back at rest after a reply with a text.
\<close>

definition recording_state :: app where
  "recording_state = getUserMedia_settles (Granted [Live]) no_fault (toggleRecording initial)"

definition stopped_state :: app where
  "stopped_state = toggleRecording recording_state"

definition processing_state :: app where
  "processing_state = stop_event_fires [82, 73, 70, 70] stopped_state"

definition finished_state :: app where
  "finished_state =
     upload_settles 0 (Returned (Some text_only_reply)) ''10:15:00'' ''10:15:00''
       processing_state"

text \<open>
  A further click on the stopped page, before the recorder's stop event has been delivered;
  then the stop event arrives; then the microphone is granted to the second start.
\<close>

definition clicked_again_state :: app where
  "clicked_again_state = toggleRecording stopped_state"

definition overlap_state :: app where
  "overlap_state =
     getUserMedia_settles (Granted [Live]) no_fault
       (stop_event_fires [82, 73, 70, 70] clicked_again_state)"

text \<open>
  The page after a start on which \<open>mediaRecorder.start()\<close> threw once the microphone had been
  granted, and the page with a draft in the prompt input.
\<close>

definition failed_start_state :: app where
  "failed_start_state =
     getUserMedia_settles (Granted [Live])
       (no_fault\<lparr>recorderStart := Some ''NotSupportedError''\<rparr>) (toggleRecording initial)"

definition draft_state :: app where
  "draft_state = initial\<lparr>promptInput := ''reschedule lunch''\<rparr>"






text \<open>The component as mounted, and while its upload is in flight.\<close>

definition component_initial :: component where
  "component_initial = \<lparr>c_isRecording = False, c_isProcessing = False, c_audioBlob = None,
     c_transcriptions = [], c_console = [], c_uploadsInFlight = []\<rparr>"

definition component_processing :: component where
  "component_processing =
     onStop_c [82, 73, 70, 70] (toggleRecording_c (toggleRecording_c component_initial))"


section \<open>The parser on plain text\<close>

lemma parse_html_Nil: "parse_html [] = Some []"
  by (simp add: parse_html.simps)

lemma parse_html_plain:
  assumes "plain s" and "s \<noteq> []"
  shows "parse_html s = Some [Txt s]"
proof -
  from assms have h: "text_char (hd s)"
    by (cases s) (simp_all add: plain_def)
  from assms have t: "takeWhile text_char s = s" "dropWhile text_char s = []"
    by (simp_all add: plain_def list_all_iff)
  show ?thesis
    by (subst parse_html.simps) (simp add: assms h t parse_html_Nil)
qed

lemma innerHTML_plain: "plain s \<Longrightarrow> innerHTML s = as_text s"
  by (cases "s = []") (simp_all add: innerHTML_def as_text_def parse_html_Nil parse_html_plain)

lemma plain_append [simp]: "plain (a @ b) \<longleftrightarrow> plain a \<and> plain b"
  by (simp add: plain_def)

lemma plain_Cons [simp]: "plain (c # cs) \<longleftrightarrow> text_char c \<and> plain cs"
  by (simp add: plain_def)

lemma plain_Nil [simp]: "plain []"
  by (simp add: plain_def)

lemma plain_quoted [simp]: "plain (quoted t) \<longleftrightarrow> plain t"
  by (simp add: quoted_def text_char_def)



lemma clean_as_text [simp]: "clean_content (as_text s)"
  by (simp add: as_text_def)


section \<open>The runs, evaluated\<close>

lemma recording_state_eq: "recording_state = \<lparr>
     isRecording = True, isProcessing = False, audioContext = Some 0, mediaRecorder = Some 0,
     audioChunks = [], buttonRecording = True, buttonProcessing = False,
     buttonText = ''Listening...'', visualizerDisplay = ''flex'', visualizerBars = 20,
     promptInput = [],
     responseContainer = P_empty_state ''Agent responses will appear here'',
     activityLog = [EmptyState], logExact = True, console = [], alerts = [],
     streams = [[Live]], recorders = [\<lparr>rec_state = Recording, rec_stream = 0\<rparr>],
     audioContexts = 1, pendingGetUserMedia = 0, stopEventsQueued = [], uploadsInFlight = [],
     promptsInFlight = [] \<rparr>"
  by (simp add: recording_state_def getUserMedia_settles_def toggleRecording_def
      startRecording_def startRecording_resume_def startVisualization_def no_fault_def
      initial_def)

lemma stopped_state_eq: "stopped_state = \<lparr>
     isRecording = False, isProcessing = False, audioContext = Some 0, mediaRecorder = Some 0,
     audioChunks = [], buttonRecording = False, buttonProcessing = True,
     buttonText = ''Processing...'', visualizerDisplay = ''flex'', visualizerBars = 20,
     promptInput = [],
     responseContainer = P_empty_state ''Agent responses will appear here'',
     activityLog = [EmptyState], logExact = True, console = [], alerts = [],
     streams = [[Ended]], recorders = [\<lparr>rec_state = Inactive, rec_stream = 0\<rparr>],
     audioContexts = 1, pendingGetUserMedia = 0, stopEventsQueued = [0], uploadsInFlight = [],
     promptsInFlight = [] \<rparr>"
  by (simp add: stopped_state_def recording_state_eq toggleRecording_def stopRecording_def
      recorder_at_def stop_tracks_def)

lemma processing_state_eq: "processing_state = \<lparr>
     isRecording = False, isProcessing = True, audioContext = Some 0, mediaRecorder = Some 0,
     audioChunks = [[82, 73, 70, 70]], buttonRecording = False, buttonProcessing = True,
     buttonText = ''Processing...'', visualizerDisplay = ''flex'', visualizerBars = 20,
     promptInput = [],
     responseContainer = P_empty_state ''Agent responses will appear here'',
     activityLog = [EmptyState], logExact = True, console = [], alerts = [],
     streams = [[Ended]], recorders = [\<lparr>rec_state = Inactive, rec_stream = 0\<rparr>],
     audioContexts = 1, pendingGetUserMedia = 0, stopEventsQueued = [],
     uploadsInFlight = [[82, 73, 70, 70]], promptsInFlight = [] \<rparr>"
  by (simp add: processing_state_def stopped_state_eq stop_event_fires_def
      mediaRecorder_onstop_def mediaRecorder_ondataavailable_def processAudio_def)

lemma finished_state_eq: "finished_state = \<lparr>
     isRecording = False, isProcessing = False, audioContext = Some 0, mediaRecorder = Some 0,
     audioChunks = [[82, 73, 70, 70]], buttonRecording = False, buttonProcessing = False,
     buttonText = ''Speak'', visualizerDisplay = ''none'', visualizerBars = 0,
     promptInput = ''move meeting to Friday'',
     responseContainer = P_empty_state ''Agent responses will appear here'',
     activityLog = [ActivityItem (as_text ''10:15:00'')
                     (as_text (''Transcribed: '' @ quoted ''move meeting to Friday''))],
     logExact = True, console = [], alerts = [],
     streams = [[Ended]], recorders = [\<lparr>rec_state = Inactive, rec_stream = 0\<rparr>],
     audioContexts = 1, pendingGetUserMedia = 0, stopEventsQueued = [],
     uploadsInFlight = [], promptsInFlight = [] \<rparr>"
  by (simp add: finished_state_def processing_state_eq upload_settles_def remove_nth_def
      processAudio_resume_def processAudio_finally_def addActivityItem_def
      text_only_reply_def innerHTML_def parse_html.simps text_char_def quoted_def as_text_def)

lemma clicked_again_state_eq: "clicked_again_state = \<lparr>
     isRecording = False, isProcessing = False, audioContext = Some 0, mediaRecorder = Some 0,
     audioChunks = [], buttonRecording = False, buttonProcessing = True,
     buttonText = ''Processing...'', visualizerDisplay = ''flex'', visualizerBars = 20,
     promptInput = [],
     responseContainer = P_empty_state ''Agent responses will appear here'',
     activityLog = [EmptyState], logExact = True, console = [], alerts = [],
     streams = [[Ended]], recorders = [\<lparr>rec_state = Inactive, rec_stream = 0\<rparr>],
     audioContexts = 1, pendingGetUserMedia = 1, stopEventsQueued = [0], uploadsInFlight = [],
     promptsInFlight = [] \<rparr>"
  by (simp add: clicked_again_state_def stopped_state_eq toggleRecording_def startRecording_def)

lemma overlap_state_eq: "overlap_state = \<lparr>
     isRecording = True, isProcessing = True, audioContext = Some 1, mediaRecorder = Some 1,
     audioChunks = [], buttonRecording = True, buttonProcessing = True,
     buttonText = ''Listening...'', visualizerDisplay = ''flex'', visualizerBars = 20,
     promptInput = [],
     responseContainer = P_empty_state ''Agent responses will appear here'',
     activityLog = [EmptyState], logExact = True, console = [], alerts = [],
     streams = [[Ended], [Live]],
     recorders = [\<lparr>rec_state = Inactive, rec_stream = 0\<rparr>,
                  \<lparr>rec_state = Recording, rec_stream = 1\<rparr>],
     audioContexts = 2, pendingGetUserMedia = 0, stopEventsQueued = [],
     uploadsInFlight = [[82, 73, 70, 70]], promptsInFlight = [] \<rparr>"
  by (simp add: overlap_state_def clicked_again_state_eq stop_event_fires_def
      mediaRecorder_onstop_def mediaRecorder_ondataavailable_def processAudio_def
      getUserMedia_settles_def startRecording_resume_def startVisualization_def no_fault_def)

lemma failed_start_state_eq: "failed_start_state = \<lparr>
     isRecording = False, isProcessing = False, audioContext = Some 0, mediaRecorder = Some 0,
     audioChunks = [], buttonRecording = False, buttonProcessing = False,
     buttonText = ''Speak'', visualizerDisplay = ''none'', visualizerBars = 0,
     promptInput = [],
     responseContainer = P_empty_state ''Agent responses will appear here'',
     activityLog = [EmptyState], logExact = True,
     console = [(''Error starting recording:'', ''NotSupportedError'')],
     alerts = [''Could not access microphone. Please check permissions.''],
     streams = [[Live]], recorders = [\<lparr>rec_state = Inactive, rec_stream = 0\<rparr>],
     audioContexts = 1, pendingGetUserMedia = 0, stopEventsQueued = [], uploadsInFlight = [],
     promptsInFlight = [] \<rparr>"
  by (simp add: failed_start_state_def getUserMedia_settles_def toggleRecording_def
      startRecording_def startRecording_resume_def startRecording_catch_def no_fault_def
      initial_def)


section \<open>Properties of the activity log\<close>

















section \<open>Properties of prompt submission\<close>

lemma trim_blank:
  assumes "\<forall>c \<in> set t. js_whitespace c"
  shows "trim t = []"
proof -
  from assms have "dropWhile js_whitespace t = []" by simp
  then show ?thesis unfolding trim_def by (simp only: rev.simps dropWhile.simps)
qed

text \<open>
  C6. When the prompt input is empty or holds only whitespace, \<open>sendPrompt\<close> returns before
  anything happens: the whole state is the one before, so no request has left, the activity
  log has no new entry and nothing displayed has changed.
\<close>

theorem sendPrompt_blank_rejected:
  assumes "\<forall>c \<in> set (promptInput s). js_whitespace c"
  shows "sendPrompt s = s"
  using assms by (simp add: sendPrompt_def trim_blank)

theorem sendPrompt_blank_rejected_witness:
  "list_all js_whitespace (promptInput (initial\<lparr>promptInput := ''   ''\<rparr>)) \<and>
   sendPrompt (initial\<lparr>promptInput := ''   ''\<rparr>) = initial\<lparr>promptInput := ''   ''\<rparr> \<and>
   list_all js_whitespace (promptInput (initial\<lparr>promptInput := []\<rparr>)) \<and>
   sendPrompt (initial\<lparr>promptInput := []\<rparr>) = initial\<lparr>promptInput := []\<rparr>"
proof -
  have a: "\<forall>c \<in> set (promptInput (initial\<lparr>promptInput := ''   ''\<rparr>)). js_whitespace c"
    by (simp add: js_whitespace_def)
  have b: "\<forall>c \<in> set (promptInput (initial\<lparr>promptInput := []\<rparr>)). js_whitespace c"
    by simp
  show ?thesis
    using a b sendPrompt_blank_rejected [OF a] sendPrompt_blank_rejected [OF b]
    by (simp add: list_all_iff)
qed



text \<open>
  C5. \<open>sendPrompt\<close> never writes the input field before its request has settled, and when
  the request fails (the promise rejects, or the reply has its \<open>error\<close> set) the field is still
  what it was when the reply arrived: the text the user typed. Only a successful reply clears
  the field.
\<close>

theorem sendPrompt_failure_keeps_input:
  "promptInput (sendPrompt s) = promptInput s \<and>
   (submission_failed result \<longrightarrow>
      promptInput (sendPrompt_resume p result t1 t2 s) = promptInput s \<and>
      promptInput (prompt_settles i result t1 t2 (sendPrompt s)) = promptInput s) \<and>
   (\<not> submission_failed result \<longrightarrow>
      promptInput (sendPrompt_resume p result t1 t2 s) = [])"
proof -
  have first: "promptInput (sendPrompt s) = promptInput s"
    by (simp add: sendPrompt_def Let_def)
  have failed: "promptInput (sendPrompt_resume q result t1 t2 s') = promptInput s'"
    if "submission_failed result" for q s'
    using that by (cases result rule: submission_failed.cases) (simp_all add: sendPrompt_resume_def)
  have settled: "promptInput (prompt_settles i result t1 t2 (sendPrompt s)) = promptInput s"
    if "submission_failed result"
    using that first by (simp add: prompt_settles_def failed)
  have succeeded: "promptInput (sendPrompt_resume p result t1 t2 s) = []"
    if "\<not> submission_failed result"
    using that by (cases result rule: submission_failed.cases) (simp_all add: sendPrompt_resume_def)
  from first failed settled succeeded show ?thesis by blast
qed

theorem sendPrompt_failure_keeps_input_witness:
  "submission_failed (Threw ''Network Error'') \<and>
   promptInput (prompt_settles 0 (Threw ''Network Error'') ''9:00:00'' ''9:00:00''
     (sendPrompt (initial\<lparr>promptInput := ''reschedule lunch''\<rparr>))) = ''reschedule lunch'' \<and>
   submission_failed (Returned (Some \<lparr>reply_message = None,
     reply_error = Some ''Failed to process prompt''\<rparr>)) \<and>
   promptInput (prompt_settles 0 (Returned (Some \<lparr>reply_message = None,
       reply_error = Some ''Failed to process prompt''\<rparr>)) ''9:00:00'' ''9:00:00''
     (sendPrompt (initial\<lparr>promptInput := ''reschedule lunch''\<rparr>))) = ''reschedule lunch'' \<and>
   \<not> submission_failed (Returned (Some \<lparr>reply_message = Some ''Done'', reply_error = None\<rparr>)) \<and>
   promptInput (sendPrompt_resume ''reschedule lunch''
     (Returned (Some \<lparr>reply_message = Some ''Done'', reply_error = None\<rparr>))
     ''9:00:00'' ''9:00:01'' (sendPrompt (initial\<lparr>promptInput := ''reschedule lunch''\<rparr>))) = []"
  using
    sendPrompt_failure_keeps_input [where s = "initial\<lparr>promptInput := ''reschedule lunch''\<rparr>"
      and result = "Threw ''Network Error''" and i = 0 and ?t1.0 = "''9:00:00''"
      and ?t2.0 = "''9:00:00''"]
    sendPrompt_failure_keeps_input [where s = "initial\<lparr>promptInput := ''reschedule lunch''\<rparr>"
      and result = "Returned (Some \<lparr>reply_message = None,
        reply_error = Some ''Failed to process prompt''\<rparr>)" and i = 0
      and ?t1.0 = "''9:00:00''" and ?t2.0 = "''9:00:00''"]
    sendPrompt_failure_keeps_input [where
      s = "sendPrompt (initial\<lparr>promptInput := ''reschedule lunch''\<rparr>)"
      and result = "Returned (Some \<lparr>reply_message = Some ''Done'', reply_error = None\<rparr>)"
      and p = "''reschedule lunch''" and ?t1.0 = "''9:00:00''" and ?t2.0 = "''9:00:01''"]
  by simp



section \<open>Properties of voice capture\<close>

text \<open>
  C7. \<open>stopRecording\<close> with no recorder, or with a recorder that is inactive, changes nothing:
  the state is the one before, no stop event is queued (so no audio blob is built) and no
  upload leaves.
\<close>

theorem stopRecording_idle_noop:
  assumes "mediaRecorder s = None \<or>
           (\<exists>r. mediaRecorder s = Some r \<and>
                map_option rec_state (recorder_at s r) = Some Inactive)"
  shows "stopRecording s = s \<and>
         stopEventsQueued (stopRecording s) = stopEventsQueued s \<and>
         uploadsInFlight (stopRecording s) = uploadsInFlight s"
proof -
  from assms have "stopRecording s = s"
    by (auto simp: stopRecording_def split: option.splits)
  then show ?thesis by simp
qed

theorem stopRecording_idle_noop_witness:
  "mediaRecorder initial = None \<and> stopRecording initial = initial \<and>
   mediaRecorder finished_state = Some 0 \<and>
   map_option rec_state (recorder_at finished_state 0) = Some Inactive \<and>
   stopRecording finished_state = finished_state"
proof -
  have a: "mediaRecorder initial = None" by (simp add: initial_def)
  have b: "mediaRecorder finished_state = Some 0 \<and>
           map_option rec_state (recorder_at finished_state 0) = Some Inactive"
    by (simp add: finished_state_eq recorder_at_def)
  from a have "stopRecording initial = initial"
    using stopRecording_idle_noop [of initial] by blast
  moreover from b have "stopRecording finished_state = finished_state"
    using stopRecording_idle_noop [of finished_state] by blast
  ultimately show ?thesis using a b by simp
qed

lemma processAudio_finally_fields [simp]:
  "promptInput (processAudio_finally s) = promptInput s"
  "responseContainer (processAudio_finally s) = responseContainer s"
  "activityLog (processAudio_finally s) = activityLog s"
  "logExact (processAudio_finally s) = logExact s"
  "promptsInFlight (processAudio_finally s) = promptsInFlight s"
  "console (processAudio_finally s) = console s"
  "isRecording (processAudio_finally s) = isRecording s"
  "entries (processAudio_finally s) = entries s"
  by (simp_all add: processAudio_finally_def entries_def)

lemma addActivityItem_fields [simp]:
  "responseContainer (addActivityItem t d s) = responseContainer s"
  "promptsInFlight (addActivityItem t d s) = promptsInFlight s"
  "console (addActivityItem t d s) = console s"
  by (simp_all add: addActivityItem_def Let_def split: search.splits)

lemma entries_update [simp]:
  "entries (s\<lparr>promptInput := v\<rparr>) = entries s"
  "entries (s\<lparr>responseContainer := w\<rparr>) = entries s"
  by (simp_all add: entries_def)

lemma clean_log_update [simp]:
  "clean_log (s\<lparr>promptInput := v\<rparr>) = clean_log s"
  "clean_log (s\<lparr>responseContainer := w\<rparr>) = clean_log s"
  by (simp_all add: clean_log_def)

lemma capture_reset_finally: "capture_reset (processAudio_finally s)"
  by (simp add: capture_reset_def processAudio_finally_def)

lemma processAudio_resume_threw:
  "processAudio_resume (Threw m) t1 t2 s =
     processAudio_finally
       (s\<lparr>console := console s @ [(''Error processing audio:'', m)],
          responseContainer := P_error (innerHTML (''Error processing audio: '' @ m))\<rparr>)"
  by (simp add: processAudio_resume_def)

lemma processAudio_resume_error:
  assumes "\<not> truthy (resp_text r)" and "truthy (resp_error r)"
  shows "processAudio_resume (Returned (Some r)) t1 t2 s =
     processAudio_finally
       (s\<lparr>console := console s @ [(''Speech recognition error:'', js_str (resp_error r))],
          responseContainer := P_error (innerHTML (''Error: '' @ js_str (resp_error r)))\<rparr>)"
  using assms by (simp add: processAudio_resume_def)




lemma isProcessing_onStop_c_resume: "\<not> c_isProcessing (onStop_c_resume result c)"
  by (simp add: onStop_c_resume_def split: prod.splits option.splits)





text \<open>
  C8, as stated, fails: a reply can carry an \<open>error\<close> field next to a text, and then the text
  is handled, the error is not shown and the log gains an entry.
\<close>

theorem processAudio_error_field_counterexample:
  "resp_error mixed_reply = Some ''unintelligible audio'' \<and>
   responseContainer (upload_settles 0 (Returned (Some mixed_reply)) ''10:15:00'' ''10:15:00''
      processing_state) = P_empty_state ''Agent responses will appear here'' \<and>
   entries (upload_settles 0 (Returned (Some mixed_reply)) ''10:15:00'' ''10:15:00''
      processing_state) =
     [ActivityItem (Parsed [Txt ''10:15:00''])
        (Parsed [Txt (''Transcribed: '' @ quoted ''hello'')])] \<and>
   entries processing_state = []"
  by (simp add: mixed_reply_def processing_state_eq upload_settles_def remove_nth_def
      processAudio_resume_def processAudio_finally_def addActivityItem_def entries_def
      innerHTML_def parse_html.simps text_char_def quoted_def)

text \<open>
  C8, amended. When the reply of the speech endpoint has no text (none, or the empty string)
  and carries a non-empty \<open>error\<close>, the response region is assigned the error paragraph with
  \<open>Error: \<close> and that string read as HTML; when the string is free of markup, the region
  shows \<open>Error: \<close> followed by that string. Whatever the error string holds, the activity
  log is unchanged and the capture is back at rest: processing flag cleared, button reset,
  visualizer hidden and emptied, recording flag as it was. When the upload throws, the region
  gets the error's message in the same way (shown as it is if free of markup), the log is
  unchanged and the capture is back at rest as well; the component of VoiceInput.js clears
  its processing flag whatever the upload did.
\<close>

theorem processAudio_error_reply:
  "(resp_error r = Some e \<and> e \<noteq> [] \<and> \<not> truthy (resp_text r) \<longrightarrow>
      (plain e \<longrightarrow>
         responseContainer (processAudio_resume (Returned (Some r)) t1 t2 s) =
           P_error (Parsed [Txt (''Error: '' @ e)])) \<and>
      activityLog (processAudio_resume (Returned (Some r)) t1 t2 s) = activityLog s \<and>
      logExact (processAudio_resume (Returned (Some r)) t1 t2 s) = logExact s \<and>
      capture_reset (processAudio_resume (Returned (Some r)) t1 t2 s) \<and>
      isRecording (processAudio_resume (Returned (Some r)) t1 t2 s) = isRecording s \<and>
      responseContainer (processAudio_resume (Returned (Some r)) t1 t2 s) =
        P_error (innerHTML (''Error: '' @ e))) \<and>
   (plain m \<longrightarrow>
      responseContainer (processAudio_resume (Threw m) t1 t2 s) =
        P_error (Parsed [Txt (''Error processing audio: '' @ m)])) \<and>
   activityLog (processAudio_resume (Threw m) t1 t2 s) = activityLog s \<and>
   logExact (processAudio_resume (Threw m) t1 t2 s) = logExact s \<and>
   capture_reset (processAudio_resume (Threw m) t1 t2 s) \<and>
   isRecording (processAudio_resume (Threw m) t1 t2 s) = isRecording s \<and>
   \<not> c_isProcessing (onStop_c_resume result c) \<and>
   responseContainer (processAudio_resume (Threw m) t1 t2 s) =
     P_error (innerHTML (''Error processing audio: '' @ m))"
proof -
  have shown: "innerHTML (prefix @ x) = Parsed [Txt (prefix @ x)]"
    if "plain prefix" "prefix \<noteq> []" "plain x" for prefix x
    using that innerHTML_plain [of "prefix @ x"] by (simp add: as_text_def)
  have err: "responseContainer (processAudio_resume (Returned (Some r)) t1 t2 s) =
           P_error (Parsed [Txt (''Error: '' @ e)])"
    if "resp_error r = Some e" "e \<noteq> []" "\<not> truthy (resp_text r)" "plain e"
  proof -
    have "innerHTML (''Error: '' @ e) = Parsed [Txt (''Error: '' @ e)]"
      by (rule shown) (simp_all add: text_char_def that(4))
    with that show ?thesis
      by (simp only: processAudio_resume_error [of r t1 t2 s] truthy.simps js_str.simps
          processAudio_finally_fields not_False_eq_True simp_thms)
        simp
  qed
  have thr: "responseContainer (processAudio_resume (Threw m) t1 t2 s) =
        P_error (Parsed [Txt (''Error processing audio: '' @ m)])"
    if "plain m"
  proof -
    have "innerHTML (''Error processing audio: '' @ m) =
            Parsed [Txt (''Error processing audio: '' @ m)]"
      by (rule shown) (simp_all add: text_char_def that)
    then show ?thesis
      by (simp only: processAudio_resume_threw processAudio_finally_fields) simp
  qed
  have rest: "activityLog (processAudio_resume (Returned (Some r)) t1 t2 s) = activityLog s \<and>
      logExact (processAudio_resume (Returned (Some r)) t1 t2 s) = logExact s \<and>
      capture_reset (processAudio_resume (Returned (Some r)) t1 t2 s) \<and>
      isRecording (processAudio_resume (Returned (Some r)) t1 t2 s) = isRecording s \<and>
      responseContainer (processAudio_resume (Returned (Some r)) t1 t2 s) =
        P_error (innerHTML (''Error: '' @ e))"
    if "resp_error r = Some e" "e \<noteq> []" "\<not> truthy (resp_text r)"
    using that by (simp add: processAudio_resume_error capture_reset_finally)
  have rest_thr: "activityLog (processAudio_resume (Threw m) t1 t2 s) = activityLog s \<and>
   logExact (processAudio_resume (Threw m) t1 t2 s) = logExact s \<and>
   capture_reset (processAudio_resume (Threw m) t1 t2 s) \<and>
   isRecording (processAudio_resume (Threw m) t1 t2 s) = isRecording s"
    by (simp add: processAudio_resume_threw capture_reset_finally)
  have region_thr: "responseContainer (processAudio_resume (Threw m) t1 t2 s) =
     P_error (innerHTML (''Error processing audio: '' @ m))"
    by (simp add: processAudio_resume_threw)
  from err thr rest rest_thr region_thr isProcessing_onStop_c_resume [of result c]
  show ?thesis by blast
qed

theorem processAudio_error_reply_witness:
  "resp_error error_reply = Some ''unintelligible audio'' \<and>
   \<not> truthy (resp_text error_reply) \<and> plain ''unintelligible audio'' \<and>
   responseContainer (processAudio_resume (Returned (Some error_reply)) ''10:15:00''
      ''10:15:00'' processing_state) = P_error (Parsed [Txt ''Error: unintelligible audio'']) \<and>
   activityLog (processAudio_resume (Returned (Some error_reply)) ''10:15:00''
      ''10:15:00'' processing_state) = [EmptyState] \<and>
   capture_reset (processAudio_resume (Returned (Some error_reply)) ''10:15:00''
      ''10:15:00'' processing_state) \<and>
   plain ''Network Error'' \<and>
   responseContainer (processAudio_resume (Threw ''Network Error'') ''10:15:00''
      ''10:15:00'' processing_state) =
     P_error (Parsed [Txt ''Error processing audio: Network Error''])"
proof -
  have h: "resp_error error_reply = Some ''unintelligible audio'' \<and>
           ''unintelligible audio'' \<noteq> [] \<and> \<not> truthy (resp_text error_reply)"
    by (simp add: error_reply_def)
  have p: "plain ''unintelligible audio''" and q: "plain ''Network Error''"
    by (simp_all add: text_char_def)
  have l: "activityLog processing_state = [EmptyState]"
    by (simp add: processing_state_eq)
  note a = processAudio_error_reply [where r = error_reply and e = "''unintelligible audio''"
      and m = "''Network Error''" and ?t1.0 = "''10:15:00''" and ?t2.0 = "''10:15:00''"
      and s = processing_state and c = component_initial and result = "Threw ''Network Error''"]
  note a1 = a [THEN conjunct1, THEN mp, OF h]
  have r1: "responseContainer (processAudio_resume (Returned (Some error_reply)) ''10:15:00''
      ''10:15:00'' processing_state) = P_error (Parsed [Txt ''Error: unintelligible audio''])"
    using a1 [THEN conjunct1, THEN mp, OF p] by simp
  have r2: "activityLog (processAudio_resume (Returned (Some error_reply)) ''10:15:00''
      ''10:15:00'' processing_state) = [EmptyState]"
    using a1 [THEN conjunct2, THEN conjunct1] by (simp only: l)
  note r3 = a1 [THEN conjunct2, THEN conjunct2, THEN conjunct2, THEN conjunct1]
  have r4: "responseContainer (processAudio_resume (Threw ''Network Error'') ''10:15:00''
      ''10:15:00'' processing_state) =
     P_error (Parsed [Txt ''Error processing audio: Network Error''])"
    using a [THEN conjunct2, THEN conjunct1, THEN mp, OF q] by simp
  from h p r1 r2 r3 q r4 show ?thesis by blast
qed





section \<open>Properties of the voice button and of submitting\<close>

lemma toggleRecording_processing: "isProcessing s \<Longrightarrow> toggleRecording s = s"
  by (simp add: toggleRecording_def)

text \<open>
  C1 asks that a gesture made while the session is processing be rejected and that at most
  one session be active. \<open>stopRecording\<close> shows the processing state on the button, but the
  flag \<open>isProcessing\<close> is set only by \<open>processAudio\<close>, which the recorder's stop event starts.
  A gesture made in between passes both guards of \<open>toggleRecording\<close> and starts a second
  capture: the microphone is requested again, and once it is granted the page is recording
  and processing at once. The component of VoiceInput.js has the same window: its flag is set
  in \<open>onStop\<close>, and a gesture before that sets the recording flag again.
\<close>

theorem toggleRecording_after_stop_starts_capture:
  "buttonProcessing stopped_state \<and> buttonText stopped_state = ''Processing...'' \<and>
   stopEventsQueued stopped_state = [0] \<and> \<not> isProcessing stopped_state \<and>
   toggleRecording stopped_state = startRecording stopped_state \<and>
   pendingGetUserMedia stopped_state = 0 \<and>
   pendingGetUserMedia (toggleRecording stopped_state) = 1 \<and>
   isProcessing overlap_state \<and> isRecording overlap_state \<and>
   active_recorders overlap_state = 1 \<and>
   uploadsInFlight overlap_state = [[82, 73, 70, 70]] \<and>
   streams overlap_state = [[Ended], [Live]] \<and>
   \<not> c_isProcessing (toggleRecording_c (toggleRecording_c component_initial)) \<and>
   c_isRecording
     (toggleRecording_c (toggleRecording_c (toggleRecording_c component_initial)))"
  by (simp add: stopped_state_eq overlap_state_eq toggleRecording_def startRecording_def
      active_recorders_def toggleRecording_c_def component_initial_def)

text \<open>
  C3, as stated, fails: \<open>sendPrompt\<close> has no guard for a request in flight. A second submit
  action before the first reply has arrived (the input still holds the draft) sends a second
  request, and two submissions are in flight at once.
\<close>

theorem sendPrompt_concurrent_counterexample:
  "promptsInFlight (sendPrompt draft_state) = [''reschedule lunch''] \<and>
   responseContainer (sendPrompt draft_state) = Div_loading ''Processing your request...'' \<and>
   promptsInFlight (sendPrompt (sendPrompt draft_state)) =
     [''reschedule lunch'', ''reschedule lunch'']"
  by (simp add: draft_state_def initial_def sendPrompt_def Let_def trim_def js_whitespace_def)

text \<open>
  C3, amended. For voice capture, while an upload is being processed a gesture on the voice
  button starts nothing: the state is unchanged, so no upload, no stop and no microphone
  request is added (in VoiceInput.js as well). Prompt submission has no such guard: every
  submit action with a non-blank input shows the loading state and sends one more request,
  whatever is in flight already.
\<close>

theorem loading_guards:
  "(isProcessing s \<longrightarrow>
      toggleRecording s = s \<and>
      uploadsInFlight (toggleRecording s) = uploadsInFlight s \<and>
      stopEventsQueued (toggleRecording s) = stopEventsQueued s \<and>
      pendingGetUserMedia (toggleRecording s) = pendingGetUserMedia s) \<and>
   (c_isProcessing c \<longrightarrow> toggleRecording_c c = c) \<and>
   (trim (promptInput s) \<noteq> [] \<longrightarrow>
      promptsInFlight (sendPrompt s) = promptsInFlight s @ [trim (promptInput s)] \<and>
      responseContainer (sendPrompt s) = Div_loading ''Processing your request...'')"
  by (simp add: toggleRecording_processing toggleRecording_c_def sendPrompt_def Let_def)

theorem loading_guards_witness:
  "isProcessing processing_state \<and> toggleRecording processing_state = processing_state \<and>
   c_isProcessing component_processing \<and>
   toggleRecording_c component_processing = component_processing \<and>
   trim (promptInput (sendPrompt draft_state)) = ''reschedule lunch'' \<and>
   promptsInFlight (sendPrompt draft_state) = [''reschedule lunch''] \<and>
   promptsInFlight (sendPrompt (sendPrompt draft_state)) =
     [''reschedule lunch''] @ [''reschedule lunch'']"
proof -
  have p: "isProcessing processing_state"
    by (simp add: processing_state_eq)
  have cp: "c_isProcessing component_processing"
    by (simp add: component_processing_def onStop_c_def)
  have d: "trim (promptInput (sendPrompt draft_state)) = ''reschedule lunch''"
    "promptsInFlight (sendPrompt draft_state) = [''reschedule lunch'']"
    by (simp_all add: draft_state_def initial_def sendPrompt_def Let_def trim_def
        js_whitespace_def)
  have n: "trim (promptInput (sendPrompt draft_state)) \<noteq> []"
    by (simp add: d(1))
  note a = loading_guards [where s = processing_state and c = component_processing]
  note b = loading_guards [where s = "sendPrompt draft_state" and c = component_processing]
  have a1: "toggleRecording processing_state = processing_state"
    by (rule a [THEN conjunct1, THEN mp, OF p, THEN conjunct1])
  have a2: "toggleRecording_c component_processing = component_processing"
    by (rule a [THEN conjunct2, THEN conjunct1, THEN mp, OF cp])
  note b3 = b [THEN conjunct2, THEN conjunct2, THEN mp, OF n, THEN conjunct1]
  from p a1 cp a2 d b3 show ?thesis by simp
qed



section \<open>Release of the microphone\<close>

text \<open>
  \<open>stopRecording\<close> on a recording recorder ends every track of its stream. A throw after the
  microphone has been granted leaves the stream as it was delivered.
\<close>

lemma stopRecording_releases:
  assumes "mediaRecorder s = Some r" and "recorder_at s r = Some rc"
    and "rec_state rc = Recording" and "rec_stream rc < length (streams s)"
  shows "streams (stopRecording s) ! rec_stream rc =
           map (\<lambda>t. Ended) (streams s ! rec_stream rc)"
  using assms by (cases "rec_state rc") (simp_all add: stopRecording_def stop_tracks_def)

lemma startRecording_fault_keeps_stream:
  assumes "newAudioContext env \<noteq> None \<or> createSource env \<noteq> None \<or>
           newMediaRecorder env \<noteq> None \<or> recorderStart env \<noteq> None"
  shows "streams (startRecording_resume (Granted stream) env s) = streams s @ [stream] \<and>
         isRecording (startRecording_resume (Granted stream) env s) = isRecording s"
  using assms
  by (auto simp: startRecording_resume_def startRecording_catch_def Let_def
      split: option.splits)

text \<open>
  C2 asks that the stream be released on every exit path of the capture. The \<open>catch\<close> block of
  \<open>startRecording\<close> does not do it: when a statement after the granted \<open>getUserMedia\<close> throws
  (here \<open>mediaRecorder.start()\<close>), the user is alerted and the session is not recording, but
  the track of the stream is still live. Nothing releases it later: \<open>stopRecording\<close> returns
  at its guard, and the next gesture starts a new capture.
\<close>

theorem startRecording_error_keeps_stream:
  "\<not> isRecording failed_start_state \<and> \<not> isProcessing failed_start_state \<and>
   streams failed_start_state = [[Live]] \<and>
   alerts failed_start_state = [''Could not access microphone. Please check permissions.''] \<and>
   stopRecording failed_start_state = failed_start_state \<and>
   toggleRecording failed_start_state = startRecording failed_start_state \<and>
   streams (toggleRecording failed_start_state) = [[Live]]"
  by (simp add: failed_start_state_eq stopRecording_def recorder_at_def toggleRecording_def
      startRecording_def)

text \<open>
  A second gesture made before the first request for the microphone has settled passes the
  guards of \<open>toggleRecording\<close> too (neither flag is set yet): both requests resume and two
  recorders are recording.
\<close>

lemma double_start_two_active:
  "active_recorders
     (getUserMedia_settles (Granted [Live]) no_fault
        (getUserMedia_settles (Granted [Live]) no_fault
           (toggleRecording (toggleRecording initial)))) = 2"
  by (simp add: active_recorders_def getUserMedia_settles_def toggleRecording_def
      startRecording_def startRecording_resume_def startVisualization_def no_fault_def
      initial_def)

end
